theory Spec2Isabelle
  imports Complex_Main
begin

section \<open>The planner's data model (src/components/types.ts)\<close>

text \<open>
  A task is the record \<open>PlannerTask\<close> of types.ts. The two minute fields are JavaScript
  numbers that hold whole minutes (the creation form offers 15, 30, 45, 60 and 90, and the
  handlers only add, subtract and round to multiples of five), so they are modelled as
  unbounded integers. \<open>startMin\<close> is \<open>number | null\<close>: \<open>None\<close> is the unplaced sentinel
  \<open>null\<close>. The field \<open>id\<close> is written \<open>id'\<close>, since \<open>id\<close> is HOL's identity function.
\<close>

datatype Category = Focus | Admin | Creative | Break

datatype Color = blue | teal | orange | cyan | pink

record PlannerTask =
  id' :: string
  title :: string
  icon :: string
  durationMin :: int
  category :: Category
  color :: Color
  startMin :: "int option"

section \<open>JavaScript arithmetic used by the handlers\<close>

text \<open>
  \<open>a % b\<close> is the truncating remainder: its sign is the sign of \<open>a\<close>. The code only ever
  divides by the constants \<open>24 * 60\<close> and \<open>60\<close>.
\<close>

definition js_rem :: "int \<Rightarrow> int \<Rightarrow> int" where
  "js_rem a b = sgn a * (\<bar>a\<bar> mod \<bar>b\<bar>)"

text \<open>\<open>Math.round\<close> rounds to the nearest integer, a tie going up.\<close>

definition Math_round :: "rat \<Rightarrow> int" where
  "Math_round x = \<lfloor>x + 1 / 2\<rfloor>"

section \<open>The page's state and its handlers (src/app/page.tsx)\<close>

text \<open>
  The component's state that the handlers read and write: the day's task collection (what
  \<open>save\<close> stores) and the selection. A handler is a function from the state before the
  call to the state after it; a handler that returns before \<open>save\<close> leaves the state as
  it was.
\<close>

record page_state =
  tasks :: "PlannerTask list"
  selectedId :: "string option"

definition onCreate :: "PlannerTask \<Rightarrow> page_state \<Rightarrow> page_state" where
  "onCreate task st = st\<lparr>tasks := tasks st @ [task]\<rparr>"

definition onSchedule :: "string \<Rightarrow> int \<Rightarrow> page_state \<Rightarrow> page_state" where
  "onSchedule taskId newStart st =
     st\<lparr>tasks := map (\<lambda>t. if id' t = taskId then t\<lparr>startMin := Some newStart\<rparr> else t) (tasks st)\<rparr>"

definition onUnschedule :: "string \<Rightarrow> page_state \<Rightarrow> page_state" where
  "onUnschedule taskId st =
     st\<lparr>tasks := map (\<lambda>t. if id' t = taskId then t\<lparr>startMin := None\<rparr> else t) (tasks st)\<rparr>"

definition onDelete :: "string \<Rightarrow> page_state \<Rightarrow> page_state" where
  "onDelete taskId st = st\<lparr>tasks := filter (\<lambda>t. id' t \<noteq> taskId) (tasks st)\<rparr>"

definition onMoveTask :: "string \<Rightarrow> int \<Rightarrow> page_state \<Rightarrow> page_state" where
  "onMoveTask i newStart st =
     (case find (\<lambda>x. id' x = i) (tasks st) of
        None \<Rightarrow> st
      | Some t \<Rightarrow>
          st\<lparr>tasks := map (\<lambda>x. if id' x = i then x\<lparr>startMin := Some newStart\<rparr> else x) (tasks st)\<rparr>)"

definition onResizeTask :: "string \<Rightarrow> int \<Rightarrow> int \<Rightarrow> page_state \<Rightarrow> page_state" where
  "onResizeTask i newStart newDuration st =
     st\<lparr>tasks := map (\<lambda>x. if id' x = i
                            then x\<lparr>startMin := Some newStart, durationMin := newDuration\<rparr>
                            else x) (tasks st)\<rparr>"

text \<open>
  \<open>onSplitTask\<close> calls \<open>uuid()\<close> twice, first for the half \<open>a\<close> and then for the half
  \<open>b\<close>; the two identifiers it gets are the parameters \<open>uuidA\<close> and \<open>uuidB\<close>. The constant
  \<open>end\<close> that the source computes and never reads is left out.
\<close>

definition onSplitTask :: "string \<Rightarrow> string \<Rightarrow> string \<Rightarrow> int \<Rightarrow> page_state \<Rightarrow> page_state" where
  "onSplitTask uuidA uuidB i splitAtMin st =
     (case find (\<lambda>x. id' x = i) (tasks st) of
        None \<Rightarrow> st
      | Some t \<Rightarrow>
          (case startMin t of
             None \<Rightarrow> st
           | Some start \<Rightarrow>
               (let s = start;
                    e0 = start + durationMin t;
                    e = (if e0 \<le> s then e0 + 24 * 60 else e0);
                    split0 = (if splitAtMin < s then splitAtMin + 24 * 60 else splitAtMin);
                    split = (if split0 > e then e else split0);
                    durA = max 5 (Math_round (of_int (split - s) / 5) * 5);
                    durB = max 5 (durationMin t - durA);
                    a = t\<lparr>id' := uuidA, durationMin := durA\<rparr>;
                    b = t\<lparr>id' := uuidB, startMin := Some (js_rem (start + durA) (24 * 60)),
                          durationMin := durB\<rparr>;
                    next = concat (map (\<lambda>x. if id' x = i then [a, b] else [x]) (tasks st))
                in st\<lparr>tasks := next, selectedId := None\<rparr>)))"

text \<open>
  The function \<open>within\<close> of the page is written \<open>within'\<close>, since \<open>within\<close> is a word of
  HOL's syntax.
\<close>

definition within' :: "int \<Rightarrow> int \<Rightarrow> int \<Rightarrow> bool" where
  "within' nowM s d =
     (let e0 = s + d;
          e = (if e0 \<le> s then e0 + 24 * 60 else e0);
          nowM' = (if nowM < s then nowM + 24 * 60 else nowM)
      in nowM' \<ge> s \<and> nowM' \<le> e)"

text \<open>
  \<open>nowMin\<close>, \<open>isActive\<close> and \<open>remaining\<close> are recomputed on every render from the clock
  (hours, minutes, seconds) and from \<open>selected\<close>, the selected task if there is one.
\<close>

definition nowMin :: "int \<Rightarrow> int \<Rightarrow> int" where
  "nowMin hours minutes = hours * 60 + minutes"

definition isActive :: "PlannerTask option \<Rightarrow> int \<Rightarrow> bool" where
  "isActive selected nowM =
     (case selected of
        None \<Rightarrow> False
      | Some t \<Rightarrow> (case startMin t of None \<Rightarrow> False | Some s \<Rightarrow> within' nowM s (durationMin t)))"

definition remaining :: "PlannerTask option \<Rightarrow> int \<Rightarrow> int \<Rightarrow> int" where
  "remaining selected nowM seconds =
     (case selected of
        None \<Rightarrow> 0
      | Some t \<Rightarrow>
          (case startMin t of
             None \<Rightarrow> 0
           | Some s \<Rightarrow> js_rem (s + durationMin t - nowM + 24 * 60) (24 * 60) * 60 - seconds))"

section \<open>The exports (src/lib/export.ts and \<open>exportJSON\<close> of src/app/page.tsx)\<close>

text \<open>
  \<open>Number.prototype.toString\<close> on a whole number: its decimal digits, after a minus sign
  when it is negative. \<open>padStart n c\<close> fills a string on the left up to length \<open>n\<close>.
\<close>

fun string_of_nat :: "nat \<Rightarrow> string" where
  "string_of_nat n =
     (if n < 10 then [''0123456789'' ! n]
      else string_of_nat (n div 10) @ [''0123456789'' ! (n mod 10)])"

declare string_of_nat.simps [simp del]

definition toString :: "int \<Rightarrow> string" where
  "toString i = (if i < 0 then ''-'' @ string_of_nat (nat (- i)) else string_of_nat (nat i))"

definition padStart :: "nat \<Rightarrow> char \<Rightarrow> string \<Rightarrow> string" where
  "padStart n c str = replicate (n - length str) c @ str"

fun join :: "string \<Rightarrow> string list \<Rightarrow> string" where
  "join sep [] = []"
| "join sep [x] = x"
| "join sep (x # y # ys) = x @ sep @ join sep (y # ys)"

definition Category_string :: "Category \<Rightarrow> string" where
  "Category_string c =
     (case c of Focus \<Rightarrow> ''Focus'' | Admin \<Rightarrow> ''Admin'' | Creative \<Rightarrow> ''Creative'' | Break \<Rightarrow> ''Break'')"

text \<open>\<open>Math.floor (minutes / 60)\<close> is the integer quotient, which \<open>div\<close> rounds down too.\<close>

definition minutesToTime :: "int \<Rightarrow> string" where
  "minutesToTime minutes =
     (let hours = minutes div 60;
          mins = js_rem minutes 60
      in padStart 2 CHR ''0'' (toString hours) @ padStart 2 CHR ''0'' (toString mins))"

text \<open>
  The ten lines that \<open>generateICS\<close> pushes for a task whose \<open>startMin\<close> is the number
  \<open>start\<close>, and the callback of its \<open>forEach\<close>: it returns at once when \<open>startMin\<close> or
  \<open>durationMin\<close> is falsy (\<open>null\<close> or 0), and pushes the ten lines otherwise.
\<close>

definition vevent_lines :: "string \<Rightarrow> PlannerTask \<Rightarrow> int \<Rightarrow> string list" where
  "vevent_lines dateStr task start =
     (let startTime = minutesToTime start;
          endTime = minutesToTime (start + durationMin task);
          uid = ''task-'' @ id' task @ ''-'' @ dateStr @ ''@planner.app''
      in [''BEGIN:VEVENT'',
          ''UID:'' @ uid,
          ''DTSTART:'' @ dateStr @ ''T'' @ startTime @ ''00'',
          ''DTEND:'' @ dateStr @ ''T'' @ endTime @ ''00'',
          ''SUMMARY:'' @ title task,
          ''DESCRIPTION:'' @ icon task @ '' '' @ Category_string (category task) @ '' task - ''
             @ toString (durationMin task) @ ''min'',
          ''CATEGORIES:'' @ Category_string (category task),
          ''STATUS:CONFIRMED'',
          ''TRANSP:OPAQUE'',
          ''END:VEVENT''])"

definition ics_forEach :: "string \<Rightarrow> string list \<Rightarrow> PlannerTask \<Rightarrow> string list" where
  "ics_forEach dateStr ics task =
     (case startMin task of
        None \<Rightarrow> ics
      | Some start \<Rightarrow>
          if start = 0 \<or> durationMin task = 0 then ics
          else ics @ vevent_lines dateStr task start)"

text \<open>
  \<open>format\<close> of date-fns is not part of the repository; the exports take it as the
  parameter \<open>format\<close>. \<open>ics_lines\<close> is the array \<open>ics\<close> when \<open>generateICS\<close> joins it.
\<close>

definition ics_lines :: "('date \<Rightarrow> string \<Rightarrow> string) \<Rightarrow> PlannerTask list \<Rightarrow> 'date \<Rightarrow> string list" where
  "ics_lines format ts date =
     (let dateStr = format date ''yyyyMMdd'';
          ics = [''BEGIN:VCALENDAR'',
                 ''VERSION:2.0'',
                 ''PRODID:-//Planner App//Task Export//EN'',
                 ''CALSCALE:GREGORIAN'',
                 ''METHOD:PUBLISH''];
          ics' = foldl (ics_forEach dateStr) ics ts
      in ics' @ [''END:VCALENDAR''])"

definition generateICS :: "('date \<Rightarrow> string \<Rightarrow> string) \<Rightarrow> PlannerTask list \<Rightarrow> 'date \<Rightarrow> string" where
  "generateICS format ts date = join [CHR 0x0D, CHR 0x0A] (ics_lines format ts date)"

text \<open>
  What an export does is a value: an alert, or a file offered for download (its name, its
  media type and its text).
\<close>

datatype export_effect = Alert string | Download string string string

definition downloadICS :: "('date \<Rightarrow> string \<Rightarrow> string) \<Rightarrow> PlannerTask list \<Rightarrow> 'date \<Rightarrow> export_effect" where
  "downloadICS format ts date =
     Download (''planner-tasks-'' @ format date ''yyyy-MM-dd'' @ ''.ics'')
       ''text/calendar;charset=utf-8'' (generateICS format ts date)"

text \<open>
  The filter of \<open>exportTasks\<close> and \<open>exportToGoogleCalendar\<close> compares the two fields
  with \<open>undefined\<close> by \<open>!==\<close>. What a field read gives is a JavaScript value: \<open>null\<close>
  or a number for \<open>startMin\<close> (\<open>number | null\<close>), a number for \<open>durationMin\<close>.
\<close>

datatype js_value = Undefined | Null | Number int

definition startMin_value :: "PlannerTask \<Rightarrow> js_value" where
  "startMin_value task = (case startMin task of None \<Rightarrow> Null | Some n \<Rightarrow> Number n)"

definition durationMin_value :: "PlannerTask \<Rightarrow> js_value" where
  "durationMin_value task = Number (durationMin task)"

text \<open>
  \<open>exportTasks\<close> also reads the platform into a constant it never uses; that is left out.
\<close>

definition exportTasks :: "('date \<Rightarrow> string \<Rightarrow> string) \<Rightarrow> PlannerTask list \<Rightarrow> 'date \<Rightarrow> export_effect" where
  "exportTasks format ts date =
     (let scheduledTasks = filter (\<lambda>task. startMin_value task \<noteq> Undefined \<and> durationMin_value task \<noteq> Undefined) ts
      in if length scheduledTasks = 0 then Alert ''No scheduled tasks to export!''
         else downloadICS format scheduledTasks date)"

text \<open>
  \<open>exportToGoogleCalendar\<close> runs the body of its \<open>forEach\<close> (it builds a URL with date-fns
  and \<open>URLSearchParams\<close>, which are not part of the repository, and opens it) on every task
  that passes the same filter. The body is the parameter \<open>openEvent\<close>; the result lists
  what was done, in order.
\<close>

datatype 'w google_effect = GoogleAlert string | Opened 'w

definition exportToGoogleCalendar :: "(PlannerTask \<Rightarrow> 'w) \<Rightarrow> PlannerTask list \<Rightarrow> 'w google_effect list" where
  "exportToGoogleCalendar openEvent ts =
     (let scheduledTasks = filter (\<lambda>task. startMin_value task \<noteq> Undefined \<and> durationMin_value task \<noteq> Undefined) ts
      in if length scheduledTasks = 0 then [GoogleAlert ''No scheduled tasks to export!'']
         else map (\<lambda>task. Opened (openEvent task)) scheduledTasks)"

text \<open>
  \<open>exportJSON\<close> offers the file whose text is \<open>JSON.stringify\<close> of the object
  \<open>{date, tasks}\<close>. The serialisation writes every property of every task, so the object
  itself stands for the text.
\<close>

record json_payload =
  payload_date :: string
  payload_tasks :: "PlannerTask list"

record json_download =
  download_name :: string
  download_type :: string
  payload :: json_payload

definition exportJSON :: "('date \<Rightarrow> string \<Rightarrow> string) \<Rightarrow> PlannerTask list \<Rightarrow> 'date \<Rightarrow> json_download" where
  "exportJSON format ts date =
     \<lparr>download_name = ''planner-'' @ format date ''yyyy-MM-dd'' @ ''.json'',
      download_type = ''application/json'',
      payload = \<lparr>payload_date = format date ''yyyy-MM-dd'', payload_tasks = ts\<rparr>\<rparr>"

section \<open>The split algorithm in the words of the specification\<close>

text \<open>
  These three definitions follow the specification's description of Split (its steps 2 to
  5), not the code; the theorems below compare \<open>onSplitTask\<close> with them.
  \<open>round_to_nearest_5 x\<close> is the multiple of five nearest to the whole number \<open>x\<close>
  (there is never a tie: a whole number is at distance at most 2 from exactly one multiple).
\<close>

definition round_to_nearest_5 :: "int \<Rightarrow> int" where
  "round_to_nearest_5 x = 5 * ((x + 2) div 5)"

definition spec_durA :: "int \<Rightarrow> int \<Rightarrow> int \<Rightarrow> int" where
  "spec_durA s d splitAtMin =
     (let e = (if s + d \<le> s then s + d + 1440 else s + d);
          normalized = (if splitAtMin < s then splitAtMin + 1440 else splitAtMin);
          clamped = (if normalized > e then e else normalized)
      in max 5 (round_to_nearest_5 (clamped - s)))"

definition spec_durB :: "int \<Rightarrow> int \<Rightarrow> int \<Rightarrow> int" where
  "spec_durB s d splitAtMin = max 5 (d - spec_durA s d splitAtMin)"

section \<open>The time of day in a calendar line, in the words of the claim\<close>

text \<open>
  A DTSTART or DTEND line gives the time of day as two digits for the hour and two for the
  minute. \<open>hhmm m\<close> writes minute \<open>m\<close> that way; it follows these words, not the code, and
  the theorem on the calendar compares \<open>minutesToTime\<close> with it.
\<close>

definition two_digits :: "int \<Rightarrow> string" where
  "two_digits n = [''0123456789'' ! nat (n div 10), ''0123456789'' ! nat (n mod 10)]"

definition hhmm :: "int \<Rightarrow> string" where
  "hhmm m = two_digits (m div 60) @ two_digits (m mod 60)"

section \<open>Example tasks\<close>

definition late_task :: PlannerTask where
  "late_task = \<lparr>id' = ''t-late'', title = ''Night shift'', icon = ''N'', durationMin = 60,
                 category = Focus, color = teal, startMin = Some 1430\<rparr>"

definition report_task :: PlannerTask where
  "report_task = \<lparr>id' = ''t-report'', title = ''Write report'', icon = ''W'', durationMin = 60,
                   category = Admin, color = blue, startMin = Some 540\<rparr>"

definition unplaced_task :: PlannerTask where
  "unplaced_task = \<lparr>id' = ''t-idle'', title = ''Read mail'', icon = ''M'', durationMin = 30,
                     category = Break, color = pink, startMin = None\<rparr>"

definition midnight_task :: PlannerTask where
  "midnight_task = \<lparr>id' = ''t-zero'', title = ''Backup'', icon = ''B'', durationMin = 45,
                     category = Creative, color = cyan, startMin = Some 0\<rparr>"

definition standup_task :: PlannerTask where
  "standup_task = \<lparr>id' = ''t-standup'', title = ''Stand-up'', icon = ''S'', durationMin = 50,
                    category = Focus, color = orange, startMin = Some 555\<rparr>"

text \<open>The two patterns the exports ask of \<open>format\<close>, for the date 5 March 2024.\<close>

definition format_5_March :: "unit \<Rightarrow> string \<Rightarrow> string" where
  "format_5_March date pattern =
     (if pattern = ''yyyyMMdd'' then ''20240305''
      else if pattern = ''yyyy-MM-dd'' then ''2024-03-05'' else pattern)"

section \<open>Arithmetic facts\<close>

lemma js_rem_nonneg: "0 \<le> a \<Longrightarrow> 0 < b \<Longrightarrow> js_rem a b = a mod b"
  by (cases "a = 0") (simp_all add: js_rem_def)

lemma Math_round_fifth: "Math_round (of_int x / 5) = (x + 2) div 5"
proof -
  have "(of_int x :: rat) / 5 + 1 / 2 = of_int (2 * x + 5) / of_int 10"
    by simp
  then have "Math_round (of_int x / 5) = (2 * x + 5) div 10"
    unfolding Math_round_def by (simp only: floor_divide_of_int_eq)
  also have "\<dots> = (x + 2) div 5"
    by presburger
  finally show ?thesis .
qed

lemma Math_round_whole: "Math_round (of_int n) = n"
  unfolding Math_round_def by linarith

lemma Math_round_numeral: "Math_round (numeral k) = numeral k"
  using Math_round_whole [of "numeral k"] by simp

lemma Math_round_quotient:
  "Math_round (numeral a / numeral b) = (2 * numeral a + numeral b) div (2 * numeral b)"
proof -
  have "(numeral a :: rat) / numeral b + 1 / 2
          = of_int (2 * numeral a + numeral b) / of_int (2 * numeral b)"
    by (simp add: field_simps)
  then show ?thesis
    unfolding Math_round_def by (simp only: floor_divide_of_int_eq)
qed

lemmas js_eval = Math_round_numeral Math_round_quotient js_rem_def Let_def

lemma round_to_nearest_5_nearest:
  "5 dvd round_to_nearest_5 x \<and> \<bar>round_to_nearest_5 x - x\<bar> \<le> 2"
  unfolding round_to_nearest_5_def by presburger

lemma round_to_nearest_5_unique:
  "5 dvd r \<Longrightarrow> \<bar>r - x\<bar> \<le> 2 \<Longrightarrow> r = round_to_nearest_5 x"
  unfolding round_to_nearest_5_def by presburger

lemma Math_round_nearest_5: "Math_round (of_int x / 5) * 5 = round_to_nearest_5 x"
  by (simp add: Math_round_fifth round_to_nearest_5_def)

section \<open>Finding and replacing a task by its identifier\<close>

lemma find_by_id:
  assumes "id' t \<notin> id' ` set pre"
  shows "find (\<lambda>x. id' x = id' t) (pre @ t # post) = Some t"
  using assms by (induction pre) auto

lemma find_absent:
  assumes "i \<notin> id' ` set ts"
  shows "find (\<lambda>x. id' x = i) ts = None"
  using assms by (induction ts) auto

lemma replace_absent:
  assumes "i \<notin> id' ` set ts"
  shows "concat (map (\<lambda>x. if id' x = i then ys else [x]) ts) = ts"
  using assms by (induction ts) auto

lemma map_absent:
  assumes "i \<notin> id' ` set ts"
  shows "map (\<lambda>x. if id' x = i then f x else x) ts = ts"
  using assms by (induction ts) auto

text \<open>
  What \<open>onSplitTask\<close> stores when the task is placed and is the only one with its
  identifier: the two halves stand where the task stood.
\<close>

lemma onSplitTask_tasks:
  assumes "tasks st = pre @ t # post"
    and "id' t \<notin> id' ` set pre" and "id' t \<notin> id' ` set post"
    and "startMin t = Some s"
  shows "tasks (onSplitTask uuidA uuidB (id' t) splitAtMin st) =
           pre @ [t\<lparr>id' := uuidA, durationMin := spec_durA s (durationMin t) splitAtMin\<rparr>,
                  t\<lparr>id' := uuidB,
                    startMin := Some (js_rem (s + spec_durA s (durationMin t) splitAtMin) 1440),
                    durationMin := spec_durB s (durationMin t) splitAtMin\<rparr>] @ post"
proof -
  have found: "find (\<lambda>x. id' x = id' t) (tasks st) = Some t"
    using assms(1,2) by (simp add: find_by_id)
  have durA: "max 5 (Math_round (of_int ((if (if splitAtMin < s then splitAtMin + 24 * 60 else splitAtMin)
                     > (if s + durationMin t \<le> s then s + durationMin t + 24 * 60 else s + durationMin t)
                   then (if s + durationMin t \<le> s then s + durationMin t + 24 * 60 else s + durationMin t)
                   else (if splitAtMin < s then splitAtMin + 24 * 60 else splitAtMin)) - s) / 5) * 5)
               = spec_durA s (durationMin t) splitAtMin"
    unfolding spec_durA_def Let_def Math_round_nearest_5 by simp
  show ?thesis
    unfolding onSplitTask_def found option.case assms(4) Let_def durA
    by (simp add: assms(1) replace_absent [OF assms(2)] replace_absent [OF assms(3)] spec_durB_def)
qed

section \<open>Splitting a task\<close>

text \<open>
  C1. Let \<open>t\<close> be a placed task of the collection, the only one with its identifier, with
  start \<open>s\<close> (a minute of the day, so not negative). Splitting it at \<open>splitAtMin\<close> puts two
  tasks in its place and leaves the tasks before and after it where they were. Both carry
  the identifiers that \<open>uuid()\<close> returned. The first keeps the start and has the duration
  \<open>durA = max 5 (round_to_nearest_5 (split - s))\<close>, where the end is \<open>s + durationMin\<close>
  (plus 1440 when that is not after \<open>s\<close>) and \<open>split\<close> is \<open>splitAtMin\<close>, plus 1440 when
  below \<open>s\<close>, clamped to the end. The second starts at \<open>(s + durA) mod 1440\<close> and has the
  duration \<open>durB = max 5 (durationMin - durA)\<close>.
\<close>

theorem split_follows_algorithm:
  assumes "tasks st = pre @ t # post"
    and "id' t \<notin> id' ` set pre" and "id' t \<notin> id' ` set post"
    and "startMin t = Some s" and "0 \<le> s"
  shows "tasks (onSplitTask uuidA uuidB (id' t) splitAtMin st) =
           pre @ [t\<lparr>id' := uuidA, durationMin := spec_durA s (durationMin t) splitAtMin\<rparr>,
                  t\<lparr>id' := uuidB,
                    startMin := Some ((s + spec_durA s (durationMin t) splitAtMin) mod 1440),
                    durationMin := spec_durB s (durationMin t) splitAtMin\<rparr>] @ post"
proof -
  have "5 \<le> spec_durA s (durationMin t) splitAtMin"
    by (simp add: spec_durA_def Let_def)
  with \<open>0 \<le> s\<close> have "0 \<le> s + spec_durA s (durationMin t) splitAtMin"
    by linarith
  then have "js_rem (s + spec_durA s (durationMin t) splitAtMin) 1440 =
             (s + spec_durA s (durationMin t) splitAtMin) mod 1440"
    by (simp add: js_rem_nonneg)
  with onSplitTask_tasks [OF assms(1-4)] show ?thesis
    by simp
qed

text \<open>
  The task from 23:50 to 00:50 (start 1430, duration 60), split at 00:10 (passed as 10),
  between two other tasks: the halves are (1430, 20) and (10, 40).
\<close>

theorem split_follows_algorithm_witness:
  "tasks (onSplitTask ''u1'' ''u2'' ''t-late'' 10
            \<lparr>tasks = [report_task, late_task, unplaced_task], selectedId = Some ''t-late''\<rparr>) =
     [report_task,
      late_task\<lparr>id' := ''u1'', startMin := Some 1430, durationMin := 20\<rparr>,
      late_task\<lparr>id' := ''u2'', startMin := Some 10, durationMin := 40\<rparr>,
      unplaced_task]"
  using split_follows_algorithm [of "\<lparr>tasks = [report_task, late_task, unplaced_task],
      selectedId = Some ''t-late''\<rparr>" "[report_task]" late_task "[unplaced_task]" 1430 "''u1''" "''u2''" 10]
  by (simp add: late_task_def report_task_def unplaced_task_def spec_durA_def spec_durB_def
      round_to_nearest_5_def Let_def)

text \<open>
  C2, as the code has it. The two halves copy the title, icon, category and colour of the
  task they replace. Their durations add up to \<open>max durationMin (durA + 5)\<close>: to the
  original duration exactly when the first half leaves at least five minutes
  (\<open>durA \<le> durationMin - 5\<close>), and to more than that otherwise, because the second half
  is never shorter than five minutes.
\<close>

theorem split_copies_fields:
  assumes "tasks st = pre @ t # post"
    and "id' t \<notin> id' ` set pre" and "id' t \<notin> id' ` set post"
    and "startMin t = Some s"
  shows "\<exists>a b. tasks (onSplitTask uuidA uuidB (id' t) splitAtMin st) = pre @ [a, b] @ post
           \<and> title a = title t \<and> title b = title t
           \<and> icon a = icon t \<and> icon b = icon t
           \<and> category a = category t \<and> category b = category t
           \<and> color a = color t \<and> color b = color t
           \<and> durationMin a + durationMin b = max (durationMin t) (durationMin a + 5)
           \<and> (durationMin a + durationMin b = durationMin t) = (durationMin a \<le> durationMin t - 5)"
proof -
  let ?a = "t\<lparr>id' := uuidA, durationMin := spec_durA s (durationMin t) splitAtMin\<rparr>"
  let ?b = "t\<lparr>id' := uuidB,
              startMin := Some (js_rem (s + spec_durA s (durationMin t) splitAtMin) 1440),
              durationMin := spec_durB s (durationMin t) splitAtMin\<rparr>"
  have result: "tasks (onSplitTask uuidA uuidB (id' t) splitAtMin st) = pre @ [?a, ?b] @ post"
    by (rule onSplitTask_tasks [OF assms])
  have copied: "title ?a = title t \<and> title ?b = title t \<and> icon ?a = icon t \<and> icon ?b = icon t
      \<and> category ?a = category t \<and> category ?b = category t
      \<and> color ?a = color t \<and> color ?b = color t"
    by simp
  have total: "durationMin ?a + durationMin ?b = max (durationMin t) (durationMin ?a + 5)"
    by (simp add: spec_durB_def)
  have exact: "(durationMin ?a + durationMin ?b = durationMin t) = (durationMin ?a \<le> durationMin t - 5)"
    by (auto simp add: spec_durB_def)
  from result copied total exact show ?thesis
    by blast
qed

text \<open>
  The one-hour report task at 09:00, split at 09:30: the halves take 30 minutes each and
  keep the title, icon, category and colour.
\<close>

theorem split_copies_fields_witness:
  "\<exists>a b. tasks (onSplitTask ''u1'' ''u2'' ''t-report'' 570
                  \<lparr>tasks = [report_task, unplaced_task], selectedId = None\<rparr>) = [a, b, unplaced_task]
     \<and> title a = ''Write report'' \<and> title b = ''Write report''
     \<and> icon a = ''W'' \<and> icon b = ''W''
     \<and> category a = Admin \<and> category b = Admin
     \<and> color a = blue \<and> color b = blue
     \<and> durationMin a + durationMin b = 60"
proof -
  have unique: "id' report_task \<notin> id' ` set []" "id' report_task \<notin> id' ` set [unplaced_task]"
    by (simp_all add: report_task_def unplaced_task_def)
  have placed: "startMin report_task = Some 540"
    by (simp add: report_task_def)
  have shape: "tasks \<lparr>tasks = [report_task, unplaced_task], selectedId = None\<rparr>
                 = [] @ report_task # [unplaced_task]"
    by simp
  obtain a b where
    ab: "tasks (onSplitTask ''u1'' ''u2'' (id' report_task) 570
                  \<lparr>tasks = [report_task, unplaced_task], selectedId = None\<rparr>) = [] @ [a, b] @ [unplaced_task]"
      "title a = title report_task" "title b = title report_task"
      "icon a = icon report_task" "icon b = icon report_task"
      "category a = category report_task" "category b = category report_task"
      "color a = color report_task" "color b = color report_task"
      "durationMin a + durationMin b = max (durationMin report_task) (durationMin a + 5)"
    using split_copies_fields [OF shape unique placed, of "''u1''" "''u2''" 570] by blast
  have "tasks (onSplitTask ''u1'' ''u2'' (id' report_task) 570
                  \<lparr>tasks = [report_task, unplaced_task], selectedId = None\<rparr>)
        = [report_task\<lparr>id' := ''u1'', durationMin := 30\<rparr>,
           report_task\<lparr>id' := ''u2'', startMin := Some 570, durationMin := 30\<rparr>, unplaced_task]"
    by (simp add: onSplitTask_def report_task_def unplaced_task_def js_eval)
  with ab(1) have "durationMin a = 30"
    by auto
  with ab show ?thesis
    by (simp add: report_task_def)
qed

text \<open>
  C2 as written fails: the one-hour report task at 09:00, split at a point beyond its end
  (11:40), becomes a half of 60 minutes and a half of 5 minutes, 65 minutes in all.
\<close>

theorem split_sum_counterexample:
  "durationMin report_task = 60 \<and>
   map durationMin (tasks (onSplitTask ''u1'' ''u2'' ''t-report'' 700
                             \<lparr>tasks = [report_task], selectedId = None\<rparr>)) = [60, 5]"
  by (simp add: onSplitTask_def report_task_def js_eval)

text \<open>
  C4. Both halves of a split last at least five minutes. When the split point, after 1440
  was added to it if it was below the start, lies at or beyond the task's end (the start
  plus the duration, plus 1440 if that is not after the start), the second half lasts
  exactly five minutes.
\<close>

theorem split_floors_at_five:
  assumes "tasks st = pre @ t # post"
    and "id' t \<notin> id' ` set pre" and "id' t \<notin> id' ` set post"
    and "startMin t = Some s"
  shows "\<exists>a b. tasks (onSplitTask uuidA uuidB (id' t) splitAtMin st) = pre @ [a, b] @ post
           \<and> 5 \<le> durationMin a \<and> 5 \<le> durationMin b
           \<and> ((if s + durationMin t \<le> s then s + durationMin t + 1440 else s + durationMin t)
                 \<le> (if splitAtMin < s then splitAtMin + 1440 else splitAtMin)
               \<longrightarrow> durationMin b = 5)"
proof -
  let ?d = "durationMin t"
  let ?a = "t\<lparr>id' := uuidA, durationMin := spec_durA s ?d splitAtMin\<rparr>"
  let ?b = "t\<lparr>id' := uuidB,
              startMin := Some (js_rem (s + spec_durA s ?d splitAtMin) 1440),
              durationMin := spec_durB s ?d splitAtMin\<rparr>"
  have result: "tasks (onSplitTask uuidA uuidB (id' t) splitAtMin st) = pre @ [?a, ?b] @ post"
    by (rule onSplitTask_tasks [OF assms])
  have floorA: "5 \<le> durationMin ?a"
    by (simp add: spec_durA_def Let_def)
  have floorB: "5 \<le> durationMin ?b"
    by (simp add: spec_durB_def)
  have clamped: "durationMin ?b = 5"
    if beyond: "(if s + ?d \<le> s then s + ?d + 1440 else s + ?d)
                  \<le> (if splitAtMin < s then splitAtMin + 1440 else splitAtMin)"
  proof -
    have near: "\<bar>round_to_nearest_5 x - x\<bar> \<le> 2" for x
      using round_to_nearest_5_nearest by blast
    have "?d - spec_durA s ?d splitAtMin \<le> 5"
    proof (cases "s + ?d \<le> s")
      case True
      then have "?d \<le> 0" by simp
      moreover have "5 \<le> spec_durA s ?d splitAtMin"
        by (simp add: spec_durA_def Let_def)
      ultimately show ?thesis by linarith
    next
      case False
      with beyond have "(if (if splitAtMin < s then splitAtMin + 1440 else splitAtMin) > s + ?d
                         then s + ?d
                         else (if splitAtMin < s then splitAtMin + 1440 else splitAtMin)) - s = ?d"
        by (simp split: if_splits)
      with False have "spec_durA s ?d splitAtMin = max 5 (round_to_nearest_5 ?d)"
        by (simp add: spec_durA_def Let_def)
      with near [of ?d] show ?thesis by linarith
    qed
    then show ?thesis
      by (simp add: spec_durB_def)
  qed
  from result floorA floorB clamped show ?thesis
    by blast
qed

text \<open>
  The report task (09:00 to 10:00) split at 11:40, beyond its end: the halves last 60 and
  5 minutes.
\<close>

theorem split_floors_at_five_witness:
  "\<exists>a b. tasks (onSplitTask ''u1'' ''u2'' ''t-report'' 700
                  \<lparr>tasks = [report_task], selectedId = None\<rparr>) = [a, b]
     \<and> 5 \<le> durationMin a \<and> durationMin b = 5"
proof -
  have unique: "id' report_task \<notin> id' ` set []" "id' report_task \<notin> id' ` set []"
    by simp_all
  have placed: "startMin report_task = Some 540"
    by (simp add: report_task_def)
  have shape: "tasks \<lparr>tasks = [report_task], selectedId = None\<rparr> = [] @ report_task # []"
    by simp
  have beyond: "(if 540 + durationMin report_task \<le> 540 then 540 + durationMin report_task + 1440
                 else 540 + durationMin report_task) \<le> (if (700::int) < 540 then 700 + 1440 else 700)"
    by (simp add: report_task_def)
  from split_floors_at_five [OF shape unique placed, of "''u1''" "''u2''" 700] beyond
  show ?thesis
    by (auto simp add: report_task_def)
qed

section \<open>Mutations by identifier\<close>

text \<open>
  C6. When no task of the collection has the identifier, each of the six mutations
  (schedule, move, resize, unschedule, delete, split) leaves the state, and so the
  collection, exactly as it was. None of them has a failing branch: they are total
  functions of the state.
\<close>

theorem unknown_id_is_noop:
  assumes "i \<notin> id' ` set (tasks st)"
  shows "onSchedule i m st = st \<and> onMoveTask i m st = st \<and> onResizeTask i m d st = st
         \<and> onUnschedule i st = st \<and> onDelete i st = st \<and> onSplitTask uuidA uuidB i m st = st"
proof -
  have unfiltered: "filter (\<lambda>t. id' t \<noteq> i) (tasks st) = tasks st"
    using assms by (auto simp add: filter_id_conv)
  have "onSchedule i m st = st"
    by (simp add: onSchedule_def map_absent [OF assms])
  moreover have "onMoveTask i m st = st"
    by (simp add: onMoveTask_def find_absent [OF assms])
  moreover have "onResizeTask i m d st = st"
    by (simp add: onResizeTask_def map_absent [OF assms])
  moreover have "onUnschedule i st = st"
    by (simp add: onUnschedule_def map_absent [OF assms])
  moreover have "onDelete i st = st"
    by (simp add: onDelete_def unfiltered)
  moreover have "onSplitTask uuidA uuidB i m st = st"
    by (simp add: onSplitTask_def find_absent [OF assms])
  ultimately show ?thesis
    by blast
qed

theorem unknown_id_is_noop_witness:
  "tasks (onSchedule ''ghost'' 600 \<lparr>tasks = [report_task, unplaced_task], selectedId = None\<rparr>)
     = [report_task, unplaced_task]
   \<and> tasks (onMoveTask ''ghost'' 600 \<lparr>tasks = [report_task, unplaced_task], selectedId = None\<rparr>)
     = [report_task, unplaced_task]
   \<and> tasks (onResizeTask ''ghost'' 600 15 \<lparr>tasks = [report_task, unplaced_task], selectedId = None\<rparr>)
     = [report_task, unplaced_task]
   \<and> tasks (onUnschedule ''ghost'' \<lparr>tasks = [report_task, unplaced_task], selectedId = None\<rparr>)
     = [report_task, unplaced_task]
   \<and> tasks (onDelete ''ghost'' \<lparr>tasks = [report_task, unplaced_task], selectedId = None\<rparr>)
     = [report_task, unplaced_task]
   \<and> tasks (onSplitTask ''u1'' ''u2'' ''ghost'' 600
               \<lparr>tasks = [report_task, unplaced_task], selectedId = None\<rparr>)
     = [report_task, unplaced_task]"
proof -
  have absent: "''ghost'' \<notin> id' ` set (tasks \<lparr>tasks = [report_task, unplaced_task], selectedId = None\<rparr>)"
    by (simp add: report_task_def unplaced_task_def)
  show ?thesis
    using unknown_id_is_noop [OF absent, of 600 15 "''u1''" "''u2''"] by simp
qed

text \<open>
  C7. Moving the task with a present identifier to \<open>newStart\<close> keeps the collection's
  length and order; position by position, the identifier, title, icon, category, colour
  and duration are those of the task before the move, and the start is \<open>newStart\<close> for
  the targeted task and unchanged for every other task. The selection is not touched.
\<close>

theorem move_changes_only_start:
  assumes "i \<in> id' ` set (tasks st)"
  shows "list_all2 (\<lambda>x y. id' y = id' x \<and> title y = title x \<and> icon y = icon x
                      \<and> category y = category x \<and> color y = color x
                      \<and> durationMin y = durationMin x
                      \<and> startMin y = (if id' x = i then Some newStart else startMin x)
                      \<and> (if id' x = i then y = x\<lparr>startMin := Some newStart\<rparr> else y = x))
           (tasks st) (tasks (onMoveTask i newStart st))
         \<and> map durationMin (tasks (onMoveTask i newStart st)) = map durationMin (tasks st)
         \<and> selectedId (onMoveTask i newStart st) = selectedId st"
proof -
  obtain t where found: "find (\<lambda>x. id' x = i) (tasks st) = Some t"
    using assms by (cases "find (\<lambda>x. id' x = i) (tasks st)") (auto simp add: find_None_iff)
  have moved: "tasks (onMoveTask i newStart st)
                 = map (\<lambda>x. if id' x = i then x\<lparr>startMin := Some newStart\<rparr> else x) (tasks st)"
    by (simp add: onMoveTask_def found)
  have frame: "list_all2 (\<lambda>x y. id' y = id' x \<and> title y = title x \<and> icon y = icon x
                      \<and> category y = category x \<and> color y = color x
                      \<and> durationMin y = durationMin x
                      \<and> startMin y = (if id' x = i then Some newStart else startMin x)
                      \<and> (if id' x = i then y = x\<lparr>startMin := Some newStart\<rparr> else y = x))
           ts (map (\<lambda>x. if id' x = i then x\<lparr>startMin := Some newStart\<rparr> else x) ts)" for ts
    by (induction ts) simp_all
  have durations: "map durationMin (map (\<lambda>x. if id' x = i then x\<lparr>startMin := Some newStart\<rparr> else x) ts)
                     = map durationMin ts" for ts
    by (induction ts) simp_all
  have selection: "selectedId (onMoveTask i newStart st) = selectedId st"
    by (simp add: onMoveTask_def found)
  from frame [of "tasks st"] durations [of "tasks st"] selection show ?thesis
    unfolding moved by blast
qed

theorem move_changes_only_start_witness:
  "tasks (onMoveTask ''t-report'' 615
            \<lparr>tasks = [late_task, report_task, unplaced_task], selectedId = Some ''t-late''\<rparr>)
     = [late_task, report_task\<lparr>startMin := Some 615\<rparr>, unplaced_task]
   \<and> map durationMin (tasks (onMoveTask ''t-report'' 615
            \<lparr>tasks = [late_task, report_task, unplaced_task], selectedId = Some ''t-late''\<rparr>))
     = [60, 60, 30]"
proof -
  have present: "''t-report'' \<in> id' ` set (tasks \<lparr>tasks = [late_task, report_task, unplaced_task],
                                                  selectedId = Some ''t-late''\<rparr>)"
    by (simp add: report_task_def)
  show ?thesis
    using move_changes_only_start [OF present, of 615]
    by (auto simp add: list_all2_Cons1 late_task_def report_task_def unplaced_task_def)
qed

text \<open>
  C8. Unscheduling a task of the collection and then placing it at minute \<open>m\<close> gives,
  position by position, tasks with the identifier, duration, title, category, colour and
  icon they had; the start is \<open>m\<close> for the task that was unscheduled and placed again and
  is unchanged for every other task. In particular the task itself comes back as the same
  record with start \<open>m\<close>.
\<close>

theorem unschedule_then_place:
  assumes "t \<in> set (tasks st)" and "startMin t = Some s"
  shows "list_all2 (\<lambda>x y. id' y = id' x \<and> durationMin y = durationMin x \<and> title y = title x
                      \<and> category y = category x \<and> color y = color x \<and> icon y = icon x
                      \<and> startMin y = (if id' x = id' t then Some m else startMin x))
           (tasks st) (tasks (onSchedule (id' t) m (onUnschedule (id' t) st)))
         \<and> t\<lparr>startMin := Some m\<rparr> \<in> set (tasks (onSchedule (id' t) m (onUnschedule (id' t) st)))"
proof -
  have roundtrip: "tasks (onSchedule (id' t) m (onUnschedule (id' t) st))
                     = map (\<lambda>x. if id' x = id' t then x\<lparr>startMin := Some m\<rparr> else x) (tasks st)"
    by (simp add: onSchedule_def onUnschedule_def comp_def if_distrib [of "id'"] cong: if_cong)
  have frame: "list_all2 (\<lambda>x y. id' y = id' x \<and> durationMin y = durationMin x \<and> title y = title x
                      \<and> category y = category x \<and> color y = color x \<and> icon y = icon x
                      \<and> startMin y = (if id' x = id' t then Some m else startMin x))
           ts (map (\<lambda>x. if id' x = id' t then x\<lparr>startMin := Some m\<rparr> else x) ts)" for ts
    by (induction ts) simp_all
  have returned: "t\<lparr>startMin := Some m\<rparr> \<in> set (map (\<lambda>x. if id' x = id' t then x\<lparr>startMin := Some m\<rparr> else x) (tasks st))"
    using assms(1) by force
  from frame [of "tasks st"] returned show ?thesis
    unfolding roundtrip by blast
qed

theorem unschedule_then_place_witness:
  "tasks (onSchedule ''t-report'' 900 (onUnschedule ''t-report''
            \<lparr>tasks = [late_task, report_task, unplaced_task], selectedId = None\<rparr>))
     = [late_task, report_task\<lparr>startMin := Some 900\<rparr>, unplaced_task]
   \<and> tasks (onUnschedule ''t-report''
            \<lparr>tasks = [late_task, report_task, unplaced_task], selectedId = None\<rparr>)
     = [late_task, report_task\<lparr>startMin := None\<rparr>, unplaced_task]"
proof -
  have member: "report_task \<in> set (tasks \<lparr>tasks = [late_task, report_task, unplaced_task],
                                            selectedId = None\<rparr>)"
    by simp
  have placed: "startMin report_task = Some 540"
    by (simp add: report_task_def)
  show ?thesis
    using unschedule_then_place [OF member placed, of 900]
    by (simp add: onSchedule_def onUnschedule_def late_task_def report_task_def unplaced_task_def)
qed

section \<open>The countdown\<close>

text \<open>
  C9. For a selected task placed at minute \<open>s\<close> of the day with duration \<open>d\<close> (neither
  negative, as the data model has them), a now-minute in 0..1439 and a current second in
  0..59, the remaining time is \<open>((s + d - now + 1440) mod 1440) * 60 - currentSecond\<close>
  seconds; nothing is clamped here.
\<close>

theorem remaining_formula:
  assumes "startMin t = Some s" and "0 \<le> s" and "0 \<le> durationMin t"
    and "0 \<le> now" and "now \<le> 1439" and "0 \<le> currentSecond" and "currentSecond \<le> 59"
  shows "remaining (Some t) now currentSecond
           = ((s + durationMin t - now + 1440) mod 1440) * 60 - currentSecond"
proof -
  have "0 \<le> s + durationMin t - now + 1440"
    using assms by linarith
  then have "js_rem (s + durationMin t - now + 24 * 60) (24 * 60)
               = (s + durationMin t - now + 1440) mod 1440"
    by (simp add: js_rem_nonneg)
  then show ?thesis
    by (simp add: remaining_def assms(1))
qed

text \<open>
  The report task (09:00 to 10:00) at 09:59:30 has 30 seconds left; at 10:00:30 the value
  is -30, and at 10:01:00 it is a whole day less a minute.
\<close>

theorem remaining_formula_witness:
  "remaining (Some report_task) 599 30 = 30 \<and> remaining (Some report_task) 600 30 = - 30
   \<and> remaining (Some report_task) 601 0 = 1439 * 60"
proof -
  have placed: "startMin report_task = Some 540"
    by (simp add: report_task_def)
  have d: "0 \<le> durationMin report_task"
    by (simp add: report_task_def)
  show ?thesis
    using remaining_formula [OF placed _ d, of 599 30]
      remaining_formula [OF placed _ d, of 600 30]
      remaining_formula [OF placed _ d, of 601 0]
    by (simp add: report_task_def)
qed

section \<open>The containment test\<close>

text \<open>
  C5. For all arguments, \<open>within' now start duration\<close> extends the end
  \<open>start + duration\<close> by 1440 when it is not after the start, adds 1440 to \<open>now\<close> when it
  is before the start, and answers \<open>start \<le> now \<le> end\<close>. So for every start in 0..1439
  and every duration of at least one minute it holds at \<open>now = start\<close> and at the end
  minute, written as \<open>start + duration\<close> or as the minute of day
  \<open>(start + duration) mod 1440\<close>; and it holds for the task that crosses midnight, start
  1400 and duration 100, at now = 30.
\<close>

theorem within_inclusive:
  "within' now s d =
     (s \<le> (if now < s then now + 1440 else now) \<and>
      (if now < s then now + 1440 else now) \<le> (if s + d \<le> s then s + d + 1440 else s + d))
   \<and> (0 \<le> start \<and> start \<le> 1439 \<and> 1 \<le> duration \<longrightarrow>
        within' start start duration \<and> within' (start + duration) start duration
        \<and> within' ((start + duration) mod 1440) start duration)
   \<and> within' 30 1400 100"
proof -
  have shape: "within' now s d =
     (s \<le> (if now < s then now + 1440 else now) \<and>
      (if now < s then now + 1440 else now) \<le> (if s + d \<le> s then s + d + 1440 else s + d))"
    by (simp add: within'_def Let_def)
  have boundaries: "within' start start duration \<and> within' (start + duration) start duration
        \<and> within' ((start + duration) mod 1440) start duration"
    if range: "0 \<le> start \<and> start \<le> 1439 \<and> 1 \<le> duration"
  proof -
    have at_start: "within' start start duration"
      using range by (simp add: within'_def Let_def)
    have at_end: "within' (start + duration) start duration"
      using range by (simp add: within'_def Let_def)
    have at_end_mod: "within' ((start + duration) mod 1440) start duration"
    proof -
      define m where "m = (start + duration) mod 1440"
      have m0: "0 \<le> m" and m1: "m \<le> start + duration"
        and mdvd: "1440 dvd (start + duration - m)"
        using range by (simp_all add: m_def zmod_le_nonneg_dividend mod_eq_dvd_iff [symmetric])
      have "m < start \<Longrightarrow> m + 1440 \<le> start + duration"
      proof -
        assume "m < start"
        then have "0 < start + duration - m" using range by linarith
        with mdvd have "1440 \<le> start + duration - m" using zdvd_imp_le by blast
        then show ?thesis by linarith
      qed
      with m0 m1 range show ?thesis
        unfolding m_def [symmetric] by (auto simp add: within'_def Let_def)
    qed
    from at_start at_end at_end_mod show ?thesis by blast
  qed
  have crossing: "within' 30 1400 100"
    by (simp add: within'_def Let_def)
  from shape boundaries crossing show ?thesis by blast
qed

text \<open>
  Start 1400 and duration 100: true at 1400, at 1500 and at 60 (the end as a minute of the
  day) and at 30, false at 61 and at 1399. Where the end is not after the start it is
  extended: with start 200, duration 0 holds at 100, and duration -100 holds at 100 and
  not at 150.
\<close>

theorem within_inclusive_witness:
  "within' 1400 1400 100 \<and> within' 1500 1400 100 \<and> within' 60 1400 100 \<and> within' 30 1400 100
   \<and> \<not> within' 61 1400 100 \<and> \<not> within' 1399 1400 100
   \<and> within' 100 200 0 \<and> within' 100 200 (- 100) \<and> \<not> within' 150 200 (- 100)"
  using within_inclusive [of 61 1400 100 1400 100] within_inclusive [of 1399 1400 100 1400 100]
    within_inclusive [of 100 200 0 1400 100] within_inclusive [of 100 200 "- 100" 1400 100]
    within_inclusive [of 150 200 "- 100" 1400 100]
  by simp

section \<open>The calendar file\<close>

lemma ics_forEach_appends: "ics_forEach d ics t = ics @ ics_forEach d [] t"
  by (simp add: ics_forEach_def split: option.splits)

lemma foldl_ics_forEach: "foldl (ics_forEach d) ics ts = ics @ concat (map (ics_forEach d []) ts)"
proof (induction ts arbitrary: ics)
  case Nil
  show ?case by simp
next
  case (Cons t ts)
  have "foldl (ics_forEach d) (ics_forEach d ics t) ts
          = ics_forEach d ics t @ concat (map (ics_forEach d []) ts)"
    by (rule Cons.IH)
  also have "\<dots> = ics @ ics_forEach d [] t @ concat (map (ics_forEach d []) ts)"
    by (subst ics_forEach_appends) simp
  finally show ?case by simp
qed

lemma ics_lines_structure:
  "ics_lines format ts date =
     [''BEGIN:VCALENDAR'', ''VERSION:2.0'', ''PRODID:-//Planner App//Task Export//EN'',
      ''CALSCALE:GREGORIAN'', ''METHOD:PUBLISH'']
     @ concat (map (ics_forEach (format date ''yyyyMMdd'') []) ts) @ [''END:VCALENDAR'']"
  by (simp add: ics_lines_def Let_def foldl_ics_forEach)

lemma ics_forEach_unplaced: "startMin t = None \<Longrightarrow> ics_forEach d [] t = []"
  by (simp add: ics_forEach_def)

lemma ics_forEach_midnight: "startMin t = Some 0 \<Longrightarrow> ics_forEach d [] t = []"
  by (simp add: ics_forEach_def)

lemma ics_lines_placed_only:
  "ics_lines format (filter (\<lambda>t. startMin t \<noteq> None) ts) date = ics_lines format ts date"
proof -
  have "concat (map (ics_forEach d []) (filter (\<lambda>t. startMin t \<noteq> None) ts))
          = concat (map (ics_forEach d []) ts)" for d
    by (induction ts) (simp_all add: ics_forEach_unplaced)
  then show ?thesis
    by (simp add: ics_lines_structure)
qed

lemma kept_by_filter:
  "filter (\<lambda>task. startMin_value task \<noteq> Undefined \<and> durationMin_value task \<noteq> Undefined) ts = ts"
  by (induction ts) (simp_all add: startMin_value_def durationMin_value_def split: option.splits)

lemma vevent_begin_once:
  "filter (\<lambda>l. l = ''BEGIN:VEVENT'') (vevent_lines d t s) = [''BEGIN:VEVENT'']"
  by (simp add: vevent_lines_def Let_def)

lemma ics_forEach_begin_count:
  "length (filter (\<lambda>l. l = ''BEGIN:VEVENT'') (ics_forEach d [] t))
     = (if startMin t \<noteq> None \<and> startMin t \<noteq> Some 0 \<and> durationMin t \<noteq> 0 then 1 else 0)"
  by (cases "startMin t") (simp_all add: ics_forEach_def vevent_begin_once)

lemma events_begin_count:
  "length (filter (\<lambda>l. l = ''BEGIN:VEVENT'') (concat (map (ics_forEach d []) ts)))
     = length (filter (\<lambda>t. startMin t \<noteq> None \<and> startMin t \<noteq> Some 0 \<and> durationMin t \<noteq> 0) ts)"
proof (induction ts)
  case Nil
  show ?case by simp
next
  case (Cons t ts)
  then show ?case
    by (simp only: list.map concat.simps filter_append length_append ics_forEach_begin_count
        filter.simps split: if_splits) simp
qed

lemma join_lines:
  "ls \<noteq> [] \<Longrightarrow> join sep ls = concat (map (\<lambda>l. l @ sep) (butlast ls)) @ last ls"
  by (induction sep ls rule: join.induct) simp_all

lemma ics_forEach_lines:
  "ics_forEach d [] t =
     (case startMin t of
        None \<Rightarrow> []
      | Some s \<Rightarrow>
          if s = 0 \<or> durationMin t = 0 then []
          else [''BEGIN:VEVENT'',
                ''UID:task-'' @ id' t @ ''-'' @ d @ ''@planner.app'',
                ''DTSTART:'' @ d @ ''T'' @ minutesToTime s @ ''00'',
                ''DTEND:'' @ d @ ''T'' @ minutesToTime (s + durationMin t) @ ''00'',
                ''SUMMARY:'' @ title t,
                ''DESCRIPTION:'' @ icon t @ '' '' @ Category_string (category t) @ '' task - ''
                   @ toString (durationMin t) @ ''min'',
                ''CATEGORIES:'' @ Category_string (category t),
                ''STATUS:CONFIRMED'',
                ''TRANSP:OPAQUE'',
                ''END:VEVENT''])"
  by (simp add: ics_forEach_def vevent_lines_def Let_def split: option.splits)

lemma generateICS_text:
  "generateICS format ts date =
     concat (map (\<lambda>l. l @ [CHR 0x0D, CHR 0x0A])
       ([''BEGIN:VCALENDAR'', ''VERSION:2.0'', ''PRODID:-//Planner App//Task Export//EN'',
         ''CALSCALE:GREGORIAN'', ''METHOD:PUBLISH'']
        @ concat (map (ics_forEach (format date ''yyyyMMdd'') []) ts)))
     @ ''END:VCALENDAR''"
proof -
  let ?body = "[''BEGIN:VCALENDAR'', ''VERSION:2.0'', ''PRODID:-//Planner App//Task Export//EN'',
         ''CALSCALE:GREGORIAN'', ''METHOD:PUBLISH'']
        @ concat (map (ics_forEach (format date ''yyyyMMdd'') []) ts)"
  have "ics_lines format ts date = ?body @ [''END:VCALENDAR'']"
    by (simp add: ics_lines_structure)
  then have "generateICS format ts date = join [CHR 0x0D, CHR 0x0A] (?body @ [''END:VCALENDAR''])"
    by (simp only: generateICS_def)
  also have "\<dots> = concat (map (\<lambda>l. l @ [CHR 0x0D, CHR 0x0A]) (butlast (?body @ [''END:VCALENDAR''])))
                   @ last (?body @ [''END:VCALENDAR''])"
    by (rule join_lines) simp
  also have "\<dots> = concat (map (\<lambda>l. l @ [CHR 0x0D, CHR 0x0A]) ?body) @ ''END:VCALENDAR''"
    by (simp only: butlast_snoc last_snoc)
  finally show ?thesis .
qed

text \<open>The decimal digits of a number below 100, filled to two places.\<close>

lemma string_of_nat_digit: "n < 10 \<Longrightarrow> string_of_nat n = [''0123456789'' ! n]"
  by (subst string_of_nat.simps) simp

lemma padStart_two_digits:
  assumes "n < 100"
  shows "padStart 2 CHR ''0'' (string_of_nat n)
           = [''0123456789'' ! (n div 10), ''0123456789'' ! (n mod 10)]"
proof (cases "n < 10")
  case True
  then show ?thesis
    by (simp add: string_of_nat_digit padStart_def)
next
  case False
  with assms have "n div 10 < 10"
    by simp
  then have "string_of_nat n = [''0123456789'' ! (n div 10), ''0123456789'' ! (n mod 10)]"
    using False by (subst string_of_nat.simps) (simp add: string_of_nat_digit)
  then show ?thesis
    by (simp add: padStart_def)
qed

lemma padStart_toString:
  assumes "0 \<le> n" and "n < 100"
  shows "padStart 2 CHR ''0'' (toString n) = two_digits n"
proof -
  have "nat n < 100"
    using assms by simp
  then have "padStart 2 CHR ''0'' (string_of_nat (nat n))
               = [''0123456789'' ! (nat n div 10), ''0123456789'' ! (nat n mod 10)]"
    by (rule padStart_two_digits)
  moreover have "nat n div 10 = nat (n div 10)" and "nat n mod 10 = nat (n mod 10)"
    using assms by (simp_all add: nat_div_distrib nat_mod_distrib)
  ultimately show ?thesis
    using assms by (simp add: toString_def two_digits_def)
qed

lemma minutesToTime_hhmm:
  assumes "0 \<le> m" and "m < 6000"
  shows "minutesToTime m = hhmm m"
proof -
  have hours: "0 \<le> m div 60" "m div 60 < 100"
    using assms by simp_all
  have mins: "0 \<le> m mod 60" "m mod 60 < 100"
    using pos_mod_bound [of 60 m] by simp_all
  have "js_rem m 60 = m mod 60"
    using assms by (simp add: js_rem_nonneg)
  then show ?thesis
    by (simp add: minutesToTime_def hhmm_def Let_def padStart_toString [OF hours]
        padStart_toString [OF mins])
qed

lemmas ics_eval = generateICS_def ics_lines_def ics_forEach_def vevent_lines_def
  minutesToTime_def toString_def padStart_def Category_string_def js_rem_def
  string_of_nat.simps Let_def

text \<open>
  C3, as the code has it. The calendar export writes nothing for an unplaced task: the
  calendar text of a collection is the calendar text of its placed tasks alone, and that is
  the text of the file whenever \<open>exportTasks\<close> offers one. The JSON export writes the
  whole collection, unplaced tasks included.
\<close>

theorem ics_export_skips_unplaced:
  "generateICS format ts date = generateICS format (filter (\<lambda>t. startMin t \<noteq> None) ts) date
   \<and> (exportTasks format ts date = Download file_name media_type body \<longrightarrow>
        body = generateICS format (filter (\<lambda>t. startMin t \<noteq> None) ts) date)
   \<and> payload_tasks (payload (exportJSON format ts date)) = ts"
proof -
  have placed_only: "generateICS format ts date
                       = generateICS format (filter (\<lambda>t. startMin t \<noteq> None) ts) date"
    by (simp only: generateICS_def ics_lines_placed_only)
  have offered: "body = generateICS format (filter (\<lambda>t. startMin t \<noteq> None) ts) date"
    if "exportTasks format ts date = Download file_name media_type body"
  proof -
    from that have "body = generateICS format ts date"
      by (simp add: exportTasks_def kept_by_filter downloadICS_def split: if_splits)
    with placed_only show ?thesis
      by simp
  qed
  have json: "payload_tasks (payload (exportJSON format ts date)) = ts"
    by (simp add: exportJSON_def)
  from placed_only offered json show ?thesis
    by blast
qed

text \<open>
  The report task (09:00 to 10:00) and an unplaced task, exported on 5 March 2024: the
  calendar file holds the one event of the report task; the JSON object holds both tasks.
\<close>

theorem ics_export_skips_unplaced_witness:
  "exportTasks format_5_March [report_task, unplaced_task] () =
     Download ''planner-tasks-2024-03-05.ics'' ''text/calendar;charset=utf-8''
       (concat (map (\<lambda>l. l @ [CHR 0x0D, CHR 0x0A])
          [''BEGIN:VCALENDAR'', ''VERSION:2.0'', ''PRODID:-//Planner App//Task Export//EN'',
           ''CALSCALE:GREGORIAN'', ''METHOD:PUBLISH'',
           ''BEGIN:VEVENT'',
           ''UID:task-t-report-20240305@planner.app'',
           ''DTSTART:20240305T090000'',
           ''DTEND:20240305T100000'',
           ''SUMMARY:Write report'',
           ''DESCRIPTION:W Admin task - 60min'',
           ''CATEGORIES:Admin'',
           ''STATUS:CONFIRMED'',
           ''TRANSP:OPAQUE'',
           ''END:VEVENT'']) @ ''END:VCALENDAR'')
   \<and> payload_tasks (payload (exportJSON format_5_March [report_task, unplaced_task] ()))
       = [report_task, unplaced_task]"
proof -
  have offered: "exportTasks format_5_March [report_task, unplaced_task] () =
      Download ''planner-tasks-2024-03-05.ics'' ''text/calendar;charset=utf-8''
        (generateICS format_5_March [report_task, unplaced_task] ())"
    by (simp add: exportTasks_def downloadICS_def startMin_value_def durationMin_value_def
        format_5_March_def unplaced_task_def report_task_def)
  have placed: "filter (\<lambda>t. startMin t \<noteq> None) [report_task, unplaced_task] = [report_task]"
    by (simp add: report_task_def unplaced_task_def)
  note export = ics_export_skips_unplaced [of format_5_March "[report_task, unplaced_task]" "()"
      "''planner-tasks-2024-03-05.ics''" "''text/calendar;charset=utf-8''"
      "generateICS format_5_March [report_task, unplaced_task] ()"]
  from export offered placed
  have "generateICS format_5_March [report_task, unplaced_task] ()
          = generateICS format_5_March [report_task] ()"
    by (elim conjE) simp
  also have "\<dots> = concat (map (\<lambda>l. l @ [CHR 0x0D, CHR 0x0A])
          [''BEGIN:VCALENDAR'', ''VERSION:2.0'', ''PRODID:-//Planner App//Task Export//EN'',
           ''CALSCALE:GREGORIAN'', ''METHOD:PUBLISH'',
           ''BEGIN:VEVENT'',
           ''UID:task-t-report-20240305@planner.app'',
           ''DTSTART:20240305T090000'',
           ''DTEND:20240305T100000'',
           ''SUMMARY:Write report'',
           ''DESCRIPTION:W Admin task - 60min'',
           ''CATEGORIES:Admin'',
           ''STATUS:CONFIRMED'',
           ''TRANSP:OPAQUE'',
           ''END:VEVENT'']) @ ''END:VCALENDAR''"
    by (simp add: ics_eval report_task_def format_5_March_def)
  finally have calendar: "generateICS format_5_March [report_task, unplaced_task] ()
          = concat (map (\<lambda>l. l @ [CHR 0x0D, CHR 0x0A])
          [''BEGIN:VCALENDAR'', ''VERSION:2.0'', ''PRODID:-//Planner App//Task Export//EN'',
           ''CALSCALE:GREGORIAN'', ''METHOD:PUBLISH'',
           ''BEGIN:VEVENT'',
           ''UID:task-t-report-20240305@planner.app'',
           ''DTSTART:20240305T090000'',
           ''DTEND:20240305T100000'',
           ''SUMMARY:Write report'',
           ''DESCRIPTION:W Admin task - 60min'',
           ''CATEGORIES:Admin'',
           ''STATUS:CONFIRMED'',
           ''TRANSP:OPAQUE'',
           ''END:VEVENT'']) @ ''END:VCALENDAR''" .
  from export have json: "payload_tasks (payload (exportJSON format_5_March [report_task, unplaced_task] ()))
       = [report_task, unplaced_task]"
    by (elim conjE)
  from offered calendar json show ?thesis
    by (simp only:)
qed

text \<open>
  C3 as written fails for the JSON export: the unplaced task is a record of the exported
  object.
\<close>

theorem json_export_counterexample:
  "startMin unplaced_task = None
   \<and> payload_tasks (payload (exportJSON format_5_March [report_task, unplaced_task] ()))
       = [report_task, unplaced_task]"
  by (simp add: exportJSON_def unplaced_task_def)

text \<open>
  The filter of \<open>exportTasks\<close> and \<open>exportToGoogleCalendar\<close> builds the list the source
  calls \<open>scheduledTasks\<close> by comparing with \<open>undefined\<close>, while the unplaced sentinel is
  \<open>null\<close>. On a day with only an unplaced task, the calendar export therefore offers a file
  instead of the alert that there are no scheduled tasks, and the Google Calendar export
  runs its body on the unplaced task.
\<close>

lemma calendar_export_of_unplaced_only:
  "exportTasks format [unplaced_task] date \<noteq> Alert ''No scheduled tasks to export!''"
  by (simp add: exportTasks_def downloadICS_def startMin_value_def durationMin_value_def
      unplaced_task_def)

lemma google_export_opens_unplaced:
  "exportToGoogleCalendar openEvent [report_task, unplaced_task]
     = [Opened (openEvent report_task), Opened (openEvent unplaced_task)]"
  by (simp add: exportToGoogleCalendar_def kept_by_filter)

text \<open>
  C10. The text that \<open>generateICS\<close> returns is the five header lines, then the events in
  the order of the tasks, each line followed by CR LF, and the closing line
  \<open>END:VCALENDAR\<close>. A task contributes an event exactly when its \<open>startMin\<close> is a number
  other than 0 and its \<open>durationMin\<close> is not 0, so the number of \<open>BEGIN:VEVENT\<close> lines is
  the number of such tasks; a task placed at minute 0 is left out without any notice, the
  text being the one without it. An event is the ten lines from \<open>BEGIN:VEVENT\<close> to
  \<open>END:VEVENT\<close>; its \<open>DTSTART\<close> and \<open>DTEND\<close> carry the export's date, the letter T, the
  time \<open>minutesToTime\<close> of \<open>startMin\<close> and of \<open>startMin + durationMin\<close>, and 00 for the
  seconds. For a minute from 0 up to 5999, \<open>minutesToTime\<close> is the hour and the minute in
  two digits each.
\<close>

theorem generateICS_events:
  "generateICS format ts date =
     concat (map (\<lambda>l. l @ [CHR 0x0D, CHR 0x0A])
       ([''BEGIN:VCALENDAR'', ''VERSION:2.0'', ''PRODID:-//Planner App//Task Export//EN'',
         ''CALSCALE:GREGORIAN'', ''METHOD:PUBLISH'']
        @ concat (map (\<lambda>t. case startMin t of
              None \<Rightarrow> []
            | Some s \<Rightarrow>
                if s = 0 \<or> durationMin t = 0 then []
                else [''BEGIN:VEVENT'',
                      ''UID:task-'' @ id' t @ ''-'' @ format date ''yyyyMMdd'' @ ''@planner.app'',
                      ''DTSTART:'' @ format date ''yyyyMMdd'' @ ''T'' @ minutesToTime s @ ''00'',
                      ''DTEND:'' @ format date ''yyyyMMdd'' @ ''T''
                         @ minutesToTime (s + durationMin t) @ ''00'',
                      ''SUMMARY:'' @ title t,
                      ''DESCRIPTION:'' @ icon t @ '' '' @ Category_string (category t)
                         @ '' task - '' @ toString (durationMin t) @ ''min'',
                      ''CATEGORIES:'' @ Category_string (category t),
                      ''STATUS:CONFIRMED'',
                      ''TRANSP:OPAQUE'',
                      ''END:VEVENT'']) ts)))
     @ ''END:VCALENDAR''
   \<and> length (filter (\<lambda>l. l = ''BEGIN:VEVENT'') (ics_lines format ts date))
       = length (filter (\<lambda>t. startMin t \<noteq> None \<and> startMin t \<noteq> Some 0 \<and> durationMin t \<noteq> 0) ts)
   \<and> (startMin t = Some 0 \<longrightarrow>
        generateICS format (pre @ t # post) date = generateICS format (pre @ post) date)
   \<and> (0 \<le> m \<and> m < 6000 \<longrightarrow> minutesToTime m = hhmm m)"
  (is "?calendar \<and> ?count \<and> ?omitted \<and> ?time")
proof -
  have contribution: "ics_forEach d [] = (\<lambda>t. case startMin t of
              None \<Rightarrow> []
            | Some s \<Rightarrow>
                if s = 0 \<or> durationMin t = 0 then []
                else [''BEGIN:VEVENT'',
                      ''UID:task-'' @ id' t @ ''-'' @ d @ ''@planner.app'',
                      ''DTSTART:'' @ d @ ''T'' @ minutesToTime s @ ''00'',
                      ''DTEND:'' @ d @ ''T'' @ minutesToTime (s + durationMin t) @ ''00'',
                      ''SUMMARY:'' @ title t,
                      ''DESCRIPTION:'' @ icon t @ '' '' @ Category_string (category t)
                         @ '' task - '' @ toString (durationMin t) @ ''min'',
                      ''CATEGORIES:'' @ Category_string (category t),
                      ''STATUS:CONFIRMED'',
                      ''TRANSP:OPAQUE'',
                      ''END:VEVENT''])" for d
    by (rule ext) (rule ics_forEach_lines)
  have "?calendar"
    unfolding generateICS_text contribution ..
  moreover have "?count"
    unfolding ics_lines_structure filter_append length_append events_begin_count by simp
  moreover have "?omitted"
    by (simp add: generateICS_text ics_forEach_midnight)
  moreover have "?time"
    by (simp add: minutesToTime_hhmm)
  ultimately show ?thesis
    by (intro conjI)
qed

text \<open>
  The calendar of 5 March 2024 for a task at 00:00, the stand-up (09:15 to 10:05) and an
  unplaced task holds the event of the stand-up only, from 091500 to 100500.
\<close>

theorem generateICS_events_witness:
  "startMin midnight_task = Some 0
   \<and> generateICS format_5_March [midnight_task, standup_task, unplaced_task] ()
       = generateICS format_5_March [standup_task, unplaced_task] ()
   \<and> generateICS format_5_March [midnight_task, standup_task, unplaced_task] () =
       concat (map (\<lambda>l. l @ [CHR 0x0D, CHR 0x0A])
         [''BEGIN:VCALENDAR'', ''VERSION:2.0'', ''PRODID:-//Planner App//Task Export//EN'',
          ''CALSCALE:GREGORIAN'', ''METHOD:PUBLISH'',
          ''BEGIN:VEVENT'',
          ''UID:task-t-standup-20240305@planner.app'',
          ''DTSTART:20240305T091500'',
          ''DTEND:20240305T100500'',
          ''SUMMARY:Stand-up'',
          ''DESCRIPTION:S Focus task - 50min'',
          ''CATEGORIES:Focus'',
          ''STATUS:CONFIRMED'',
          ''TRANSP:OPAQUE'',
          ''END:VEVENT'']) @ ''END:VCALENDAR''
   \<and> minutesToTime 555 = ''0915'' \<and> minutesToTime 605 = ''1005''"
proof -
  have zero: "startMin midnight_task = Some 0"
    by (simp add: midnight_task_def)
  note events = generateICS_events [of format_5_March "[midnight_task, standup_task, unplaced_task]"
      "()" midnight_task "[]" "[standup_task, unplaced_task]" 555]
  note events' = generateICS_events [of format_5_March "[midnight_task, standup_task, unplaced_task]"
      "()" midnight_task "[]" "[standup_task, unplaced_task]" 605]
  from events zero
  have omitted: "generateICS format_5_March [midnight_task, standup_task, unplaced_task] ()
                   = generateICS format_5_March [standup_task, unplaced_task] ()"
    by (elim conjE) simp
  from events have start: "minutesToTime 555 = ''0915''"
    by (elim conjE) (simp add: hhmm_def two_digits_def)
  from events' have finish: "minutesToTime 605 = ''1005''"
    by (elim conjE) (simp add: hhmm_def two_digits_def)
  from events
  have "generateICS format_5_March [midnight_task, standup_task, unplaced_task] () =
     concat (map (\<lambda>l. l @ [CHR 0x0D, CHR 0x0A])
       ([''BEGIN:VCALENDAR'', ''VERSION:2.0'', ''PRODID:-//Planner App//Task Export//EN'',
         ''CALSCALE:GREGORIAN'', ''METHOD:PUBLISH'']
        @ concat (map (\<lambda>t. case startMin t of
              None \<Rightarrow> []
            | Some s \<Rightarrow>
                if s = 0 \<or> durationMin t = 0 then []
                else [''BEGIN:VEVENT'',
                      ''UID:task-'' @ id' t @ ''-'' @ format_5_March () ''yyyyMMdd'' @ ''@planner.app'',
                      ''DTSTART:'' @ format_5_March () ''yyyyMMdd'' @ ''T'' @ minutesToTime s @ ''00'',
                      ''DTEND:'' @ format_5_March () ''yyyyMMdd'' @ ''T''
                         @ minutesToTime (s + durationMin t) @ ''00'',
                      ''SUMMARY:'' @ title t,
                      ''DESCRIPTION:'' @ icon t @ '' '' @ Category_string (category t)
                         @ '' task - '' @ toString (durationMin t) @ ''min'',
                      ''CATEGORIES:'' @ Category_string (category t),
                      ''STATUS:CONFIRMED'',
                      ''TRANSP:OPAQUE'',
                      ''END:VEVENT'']) [midnight_task, standup_task, unplaced_task])))
     @ ''END:VCALENDAR''"
    by (elim conjE)
  then have calendar: "generateICS format_5_March [midnight_task, standup_task, unplaced_task] () =
       concat (map (\<lambda>l. l @ [CHR 0x0D, CHR 0x0A])
         [''BEGIN:VCALENDAR'', ''VERSION:2.0'', ''PRODID:-//Planner App//Task Export//EN'',
          ''CALSCALE:GREGORIAN'', ''METHOD:PUBLISH'',
          ''BEGIN:VEVENT'',
          ''UID:task-t-standup-20240305@planner.app'',
          ''DTSTART:20240305T091500'',
          ''DTEND:20240305T100500'',
          ''SUMMARY:Stand-up'',
          ''DESCRIPTION:S Focus task - 50min'',
          ''CATEGORIES:Focus'',
          ''STATUS:CONFIRMED'',
          ''TRANSP:OPAQUE'',
          ''END:VEVENT'']) @ ''END:VCALENDAR''"
    by (simp add: midnight_task_def standup_task_def unplaced_task_def format_5_March_def
        start finish toString_def Category_string_def string_of_nat.simps)
  from zero omitted calendar start finish show ?thesis
    by (intro conjI)
qed

end
